theory Spec2Isabelle
  imports Main "HOL-Library.Sublist"
begin

section \<open>The values of \<^verbatim>\<open>chat_exporter.py\<close>\<close>

text \<open>
  The module is glue between a chat platform client, the transcript builder and the
  filesystem. Every call it issues to one of them, and every line it prints, is an event;
  an operation returns its Python result together with the events it emitted, in order.
  An exception is the left injection of the result. The Python exceptions that the
  module's own statements can raise, and any exception of the builder, are values of
  \<open>py_exception\<close>. \<open>RaisedException s\<close> is any other exception that derives from
  \<^verbatim>\<open>Exception\<close>; \<open>RaisedBaseException s\<close> is an exception that does not
  (\<^verbatim>\<open>asyncio.CancelledError\<close>, \<^verbatim>\<open>KeyboardInterrupt\<close>, \<^verbatim>\<open>SystemExit\<close>), which a handler
  \<^verbatim>\<open>except Exception\<close> does not catch. The failures of the platform
  and of the filesystem themselves are not the module's: a call that is issued is
  recorded and returns.
\<close>

datatype py_exception =
    ValueError
  | TypeError
  | AttributeError
  | IndexError
  | NameError
  | RaisedException string
  | RaisedBaseException string

fun is_Exception :: "py_exception \<Rightarrow> bool" where
  "is_Exception (RaisedBaseException s) = False"
| "is_Exception e = True"

type_synonym datetime = int
type_synonym obj_ref = nat

text \<open>
  An attachment whose \<^verbatim>\<open>filename\<close> is not a string has \<open>filename = None\<close>: the test
  \<^verbatim>\<open>"..." in f.filename\<close> raises \<^verbatim>\<open>TypeError\<close> on it. A message whose
  \<^verbatim>\<open>attachments\<close> cannot be iterated or indexed has \<open>attachments = None\<close>.
\<close>

record attachment =
  filename :: "string option"
  url :: string

record message =
  message_id :: int
  created_at :: datetime
  attachments :: "attachment list option"

record guild =
  guild_id :: int

record channel =
  channel_id :: int
  name :: string
  guild :: "guild option"
  history :: "message list"

datatype colour = Blurple | Red

record embed =
  title :: "string option"
  description :: string
  colour :: colour

record discord_file =
  fp :: string
  file_name :: string

record outgoing =
  out_embed :: embed
  out_file :: "discord_file option"

record transcript =
  html :: string

text \<open>The keyword arguments of the constructor \<^verbatim>\<open>Transcript(...)\<close>.\<close>

record transcript_args =
  t_channel :: channel
  t_limit :: "int option"
  t_messages :: "message list option"
  t_pytz_timezone :: string
  t_military_time :: "bool option"
  t_fancy_times :: "bool option"
  t_before :: "datetime option"
  t_after :: "datetime option"
  t_support_dev :: "bool option"
  t_bot :: "obj_ref option"
  t_attachment_handler :: "obj_ref option"

text \<open>
  What the module calls and does not define: Python's \<^verbatim>\<open>int\<close> on a string (\<open>None\<close>
  is \<^verbatim>\<open>ValueError\<close>), \<^verbatim>\<open>Transcript(...).export()\<close>, and the call
  \<^verbatim>\<open>Transcript.export(channel, None, "Europe/London")\<close> of the second
  \<^verbatim>\<open>quick_export\<close>, whose first argument may be \<^verbatim>\<open>None\<close>.
\<close>

record externals =
  py_int :: "string \<Rightarrow> int option"
  Transcript_export :: "transcript_args \<Rightarrow> py_exception + transcript"
  Transcript_export_unbound ::
    "channel option \<Rightarrow> int option \<Rightarrow> string \<Rightarrow> py_exception + transcript"

text \<open>
  The platform client: \<^verbatim>\<open>client.get_guild(id)\<close> and \<^verbatim>\<open>guild.get_channel(id)\<close>,
  both of which return \<^verbatim>\<open>None\<close> for an unknown id.
\<close>

record client =
  get_guild :: "int \<Rightarrow> guild option"
  get_channel :: "guild \<Rightarrow> int \<Rightarrow> channel option"

datatype event =
    GetGuild int
  | GetChannel guild int
  | Send channel outgoing
  | History channel
  | Delete message
  | WriteFile string string
  | PrintExc py_exception
  | Print string

fun is_Send :: "event \<Rightarrow> bool" where
  "is_Send (Send c out) = True"
| "is_Send e = False"

fun is_WriteFile :: "event \<Rightarrow> bool" where
  "is_WriteFile (WriteFile p s) = True"
| "is_WriteFile e = False"

fun is_lookup :: "event \<Rightarrow> bool" where
  "is_lookup (GetGuild i) = True"
| "is_lookup (GetChannel g i) = True"
| "is_lookup e = False"

fun is_diagnostic :: "event \<Rightarrow> bool" where
  "is_diagnostic (PrintExc e) = True"
| "is_diagnostic (Print s) = True"
| "is_diagnostic e = False"

text \<open>\<^verbatim>\<open>str(x)\<close> inside an f-string, for an argument that is a string or \<^verbatim>\<open>None\<close>.\<close>

definition py_str :: "string option \<Rightarrow> string" where
  "py_str x = (case x of None \<Rightarrow> ''None'' | Some s \<Rightarrow> s)"

text \<open>\<^verbatim>\<open>needle in s\<close> on two strings.\<close>

definition str_contains :: "string \<Rightarrow> string \<Rightarrow> bool" where
  "str_contains needle s = sublist needle s"

section \<open>\<^verbatim>\<open>link\<close> and \<^verbatim>\<open>quick_link\<close>\<close>

text \<open>\<^verbatim>\<open>message.attachments[0]\<close>\<close>

definition first_attachment :: "message \<Rightarrow> py_exception + attachment" where
  "first_attachment m =
     (case attachments m of
        None \<Rightarrow> Inl TypeError
      | Some [] \<Rightarrow> Inl IndexError
      | Some (a # as) \<Rightarrow> Inr a)"

definition link :: "message \<Rightarrow> py_exception + string" where
  "link m =
     (case first_attachment m of
        Inl e \<Rightarrow> Inl e
      | Inr a \<Rightarrow> Inr (''https://mahto.id/chat-exporter?url='' @ url a))"

definition quick_link :: "channel \<Rightarrow> message \<Rightarrow> (py_exception + outgoing) \<times> event list" where
  "quick_link c m =
     (case first_attachment m of
        Inl e \<Rightarrow> (Inl e, [])
      | Inr a \<Rightarrow>
          (let emb = \<lparr>title = Some ''Transcript Link'',
                      description = ''[Click here to view the transcript](''
                        @ ''https://mahto.id/chat-exporter?url='' @ url a @ '')'',
                      colour = Blurple\<rparr>;
               out = \<lparr>out_embed = emb, out_file = None\<rparr>
           in (Inr out, [Send c out])))"

section \<open>\<^verbatim>\<open>export\<close>, \<^verbatim>\<open>raw_export\<close> and the first \<^verbatim>\<open>quick_export\<close>\<close>

text \<open>
  \<^verbatim>\<open>if guild: channel.guild = guild\<close>. A guild object is truthy, \<^verbatim>\<open>None\<close> is not.
  The channel is the caller's object: the operations return it as it is after the call.
\<close>

definition assign_guild :: "channel \<Rightarrow> guild option \<Rightarrow> channel" where
  "assign_guild c guild_arg =
     (case guild_arg of None \<Rightarrow> c | Some g \<Rightarrow> c\<lparr>guild := Some g\<rparr>)"

definition export ::
  "externals \<Rightarrow> channel \<Rightarrow> int option \<Rightarrow> string \<Rightarrow> guild option \<Rightarrow> obj_ref option
     \<Rightarrow> bool option \<Rightarrow> bool option \<Rightarrow> datetime option \<Rightarrow> datetime option
     \<Rightarrow> bool option \<Rightarrow> obj_ref option \<Rightarrow> (py_exception + string) \<times> channel" where
  "export ext c limit tz_info guild_arg bot_arg military_time fancy_times before_arg after_arg
       support_dev attachment_handler =
     (let c' = assign_guild c guild_arg in
      (case Transcript_export ext
              \<lparr>t_channel = c', t_limit = limit, t_messages = None,
               t_pytz_timezone = tz_info, t_military_time = military_time,
               t_fancy_times = fancy_times, t_before = before_arg, t_after = after_arg,
               t_support_dev = support_dev, t_bot = bot_arg,
               t_attachment_handler = attachment_handler\<rparr> of
         Inl e \<Rightarrow> Inl e
       | Inr t \<Rightarrow> Inr (html t), c'))"

definition raw_export ::
  "externals \<Rightarrow> channel \<Rightarrow> message list \<Rightarrow> string \<Rightarrow> guild option \<Rightarrow> obj_ref option
     \<Rightarrow> bool option \<Rightarrow> bool option \<Rightarrow> bool option \<Rightarrow> obj_ref option
     \<Rightarrow> (py_exception + string) \<times> channel" where
  "raw_export ext c messages tz_info guild_arg bot_arg military_time fancy_times
       support_dev attachment_handler =
     (let c' = assign_guild c guild_arg in
      (case Transcript_export ext
              \<lparr>t_channel = c', t_limit = None, t_messages = Some messages,
               t_pytz_timezone = tz_info, t_military_time = military_time,
               t_fancy_times = fancy_times, t_before = None, t_after = None,
               t_support_dev = support_dev, t_bot = bot_arg,
               t_attachment_handler = attachment_handler\<rparr> of
         Inl e \<Rightarrow> Inl e
       | Inr t \<Rightarrow> Inr (html t), c'))"

text \<open>The first \<^verbatim>\<open>quick_export\<close> (line 11): it posts the transcript to the channel.\<close>

definition quick_export_post ::
  "externals \<Rightarrow> channel \<Rightarrow> guild option \<Rightarrow> obj_ref option
     \<Rightarrow> ((py_exception + outgoing option) \<times> event list) \<times> channel" where
  "quick_export_post ext c guild_arg bot_arg =
     (let c' = assign_guild c guild_arg in
      (case Transcript_export ext
              \<lparr>t_channel = c', t_limit = None, t_messages = None,
               t_pytz_timezone = ''UTC'', t_military_time = Some True,
               t_fancy_times = Some True, t_before = None, t_after = None,
               t_support_dev = Some True, t_bot = bot_arg,
               t_attachment_handler = None\<rparr> of
         Inl e \<Rightarrow> (Inl e, [])
       | Inr t \<Rightarrow>
           if html t = [] then (Inr None, [])
           else
             (let emb = \<lparr>title = None,
                         description = ''**Transcript Name:** transcript-'' @ name c'
                           @ [CHR 0x0A, CHR 0x0A],
                         colour = Blurple\<rparr>;
                  f = \<lparr>fp = html t, file_name = ''transcript-'' @ name c' @ ''.html''\<rparr>;
                  out = \<lparr>out_embed = emb, out_file = Some f\<rparr>
              in (Inr (Some out), [Send c' out])), c'))"

section \<open>The cleanup pass\<close>

text \<open>
  The loop over \<^verbatim>\<open>m.attachments\<close>, from the attachment it has reached:
  \<^verbatim>\<open>
  for f in m.attachments:
      if f"transcript-{channel.name}.html" in f.filename:
          await m.delete()
  \<close>
  There is no \<^verbatim>\<open>break\<close>: the loop goes on after a deletion.
\<close>

definition needle :: "string \<Rightarrow> string" where
  "needle channel_name = ''transcript-'' @ channel_name @ ''.html''"

fun scan_attachments ::
  "string \<Rightarrow> message \<Rightarrow> attachment list \<Rightarrow> (py_exception + unit) \<times> event list" where
  "scan_attachments channel_name m [] = (Inr (), [])"
| "scan_attachments channel_name m (f # fs) =
     (case filename f of
        None \<Rightarrow> (Inl TypeError, [])
      | Some fn \<Rightarrow>
          if str_contains (needle channel_name) fn
          then (case scan_attachments channel_name m fs of (r, es) \<Rightarrow> (r, Delete m # es))
          else scan_attachments channel_name m fs)"

text \<open>The body of the \<^verbatim>\<open>try\<close> for one message.\<close>

definition inspect_message ::
  "string \<Rightarrow> message \<Rightarrow> (py_exception + unit) \<times> event list" where
  "inspect_message channel_name m =
     (case attachments m of
        None \<Rightarrow> (Inl TypeError, [])
      | Some fs \<Rightarrow> scan_attachments channel_name m fs)"

text \<open>
  The loop over the history:
  \<^verbatim>\<open>
  async for m in channel.history(limit=None):
      try: ...
      except TypeError:
          continue
  \<close>
  Only \<^verbatim>\<open>TypeError\<close> is caught; any other exception leaves the loop and the operation.
\<close>

fun cleanup :: "string \<Rightarrow> message list \<Rightarrow> (py_exception + unit) \<times> event list" where
  "cleanup channel_name [] = (Inr (), [])"
| "cleanup channel_name (m # ms) =
     (case inspect_message channel_name m of
        (Inl TypeError, es) \<Rightarrow>
          (case cleanup channel_name ms of (r, es') \<Rightarrow> (r, es @ es'))
      | (Inl e, es) \<Rightarrow> (Inl e, es)
      | (Inr u, es) \<Rightarrow>
          (case cleanup channel_name ms of (r, es') \<Rightarrow> (r, es @ es')))"

section \<open>The second and the third \<^verbatim>\<open>quick_export\<close>\<close>

definition error_embed :: embed where
  "error_embed =
     \<lparr>title = Some ''Transcript Generation Failed!'',
      description = ''Whoops! We've stumbled in to an issue here.'',
      colour = Red\<rparr>"

definition error_out :: outgoing where
  "error_out = \<lparr>out_embed = error_embed, out_file = None\<rparr>"

definition hint :: string where
  "hint = ''Please send a screenshot of the above error to ''
     @ ''https://www.github.com/mahtoid/DiscordChatExporterPy''"

definition ticket_name :: "string \<Rightarrow> string option \<Rightarrow> string" where
  "ticket_name channel_name ticket_id =
     ''transcript-'' @ channel_name @ ''---'' @ py_str ticket_id @ ''---.html''"

definition ticket_path :: "string \<Rightarrow> string option \<Rightarrow> string" where
  "ticket_path channel_name ticket_id =
     ''/var/www/html/transcripts/'' @ ticket_name channel_name ticket_id"

text \<open>
  The two lookups that open both definitions:
  \<^verbatim>\<open>
  guild = client.get_guild(int(guild))
  channel = guild.get_channel(int(channel))
  \<close>
  Python evaluates \<^verbatim>\<open>client.get_guild\<close> before \<^verbatim>\<open>int(guild)\<close>, and
  \<^verbatim>\<open>guild.get_channel\<close> before \<^verbatim>\<open>int(channel)\<close>. The result is the guild and
  what \<^verbatim>\<open>get_channel\<close> returned, which may be \<^verbatim>\<open>None\<close>.
\<close>

definition resolve ::
  "externals \<Rightarrow> string \<Rightarrow> string option \<Rightarrow> client option
     \<Rightarrow> (py_exception + guild \<times> channel option) \<times> event list" where
  "resolve ext channel_arg guild_arg client_arg =
     (case client_arg of
        None \<Rightarrow> (Inl AttributeError, [])
      | Some cl \<Rightarrow>
          (case guild_arg of
             None \<Rightarrow> (Inl TypeError, [])
           | Some gs \<Rightarrow>
               (case py_int ext gs of
                  None \<Rightarrow> (Inl ValueError, [])
                | Some gid \<Rightarrow>
                    (case get_guild cl gid of
                       None \<Rightarrow> (Inl AttributeError, [GetGuild gid])
                     | Some g \<Rightarrow>
                         (case py_int ext channel_arg of
                            None \<Rightarrow> (Inl ValueError, [GetGuild gid])
                          | Some cid \<Rightarrow>
                              (Inr (g, get_channel cl g cid),
                               [GetGuild gid, GetChannel g cid]))))))"

text \<open>
  What follows the \<^verbatim>\<open>try\<close> in both definitions: the cleanup pass over the history and
  the write of the file.
\<close>

definition cleanup_and_write ::
  "channel \<Rightarrow> string option \<Rightarrow> string \<Rightarrow> (py_exception + unit) \<times> event list" where
  "cleanup_and_write c ticket_id text =
     (case cleanup (name c) (history c) of
        (Inl e, es) \<Rightarrow> (Inl e, History c # es)
      | (Inr u, es) \<Rightarrow>
          (Inr (), History c # es @ [WriteFile (ticket_path (name c) ticket_id) text]))"

text \<open>
  The second \<^verbatim>\<open>quick_export\<close> (line 170). The handler is \<^verbatim>\<open>except Exception\<close>: an
  exception of the builder that does not derive from \<^verbatim>\<open>Exception\<close> leaves the
  operation. With \<^verbatim>\<open>channel = None\<close> the attribute accesses \<^verbatim>\<open>channel.send\<close> and
  \<^verbatim>\<open>channel.history\<close> raise \<^verbatim>\<open>AttributeError\<close>.
\<close>

definition quick_export_unbound ::
  "externals \<Rightarrow> string \<Rightarrow> string option \<Rightarrow> string option \<Rightarrow> client option
     \<Rightarrow> (py_exception + unit) \<times> event list" where
  "quick_export_unbound ext channel_arg guild_arg ticket_id client_arg =
     (case resolve ext channel_arg guild_arg client_arg of
        (Inl e, es) \<Rightarrow> (Inl e, es)
      | (Inr (g, chan), es) \<Rightarrow>
          (case Transcript_export_unbound ext chan None ''Europe/London'' of
             Inl e \<Rightarrow>
               if is_Exception e
               then (case chan of
                       None \<Rightarrow> (Inl AttributeError, es @ [PrintExc e])
                     | Some c \<Rightarrow> (Inr (), es @ [PrintExc e, Send c error_out, Print hint]))
               else (Inl e, es)
           | Inr t \<Rightarrow>
               (case chan of
                  None \<Rightarrow> (Inl AttributeError, es)
                | Some c \<Rightarrow>
                    (case cleanup_and_write c ticket_id (html t) of
                       (r, es') \<Rightarrow> (r, es @ es')))))"

text \<open>
  The third \<^verbatim>\<open>quick_export\<close> (line 205). The handler is \<^verbatim>\<open>except Exception\<close>, as in
  the second. With \<^verbatim>\<open>channel = None\<close> the call of \<^verbatim>\<open>export\<close> raises
  \<^verbatim>\<open>AttributeError\<close> at \<^verbatim>\<open>channel.guild = guild\<close>, inside the \<^verbatim>\<open>try\<close>, and the handler
  raises it again at \<^verbatim>\<open>channel.send\<close>.
\<close>

definition quick_export ::
  "externals \<Rightarrow> string \<Rightarrow> string option \<Rightarrow> string option \<Rightarrow> client option
     \<Rightarrow> (py_exception + unit) \<times> event list" where
  "quick_export ext channel_arg guild_arg ticket_id client_arg =
     (case resolve ext channel_arg guild_arg client_arg of
        (Inl e, es) \<Rightarrow> (Inl e, es)
      | (Inr (g, chan), es) \<Rightarrow>
          (case chan of
             None \<Rightarrow> (Inl AttributeError, es @ [PrintExc AttributeError])
           | Some c \<Rightarrow>
               (case export ext c (Some 10000) ''UTC'' (Some g) None (Some True) (Some True)
                       None None (Some True) None of
                  (Inl e, c') \<Rightarrow>
                    if is_Exception e
                    then (Inr (), es @ [PrintExc e, Send c' error_out, Print hint])
                    else (Inl e, es)
                | (Inr text, c') \<Rightarrow>
                    (case cleanup_and_write c' ticket_id text of
                       (r, es') \<Rightarrow> (r, es @ es')))))"

section \<open>The names the module binds\<close>

text \<open>
  Executing the module runs its \<^verbatim>\<open>def\<close> statements from top to bottom; each binds its
  name in the module's namespace, replacing what the name was bound to.
\<close>

datatype def_stmt =
    Def_quick_export_11
  | Def_export_56
  | Def_raw_export_104
  | Def_quick_link_148
  | Def_quick_export_170
  | Def_quick_export_205
  | Def_link_240

definition module_body :: "(string \<times> def_stmt) list" where
  "module_body =
     [(''quick_export'', Def_quick_export_11),
      (''export'', Def_export_56),
      (''raw_export'', Def_raw_export_104),
      (''quick_link'', Def_quick_link_148),
      (''quick_export'', Def_quick_export_170),
      (''quick_export'', Def_quick_export_205),
      (''link'', Def_link_240)]"

fun exec_defs ::
  "(string \<times> def_stmt) list \<Rightarrow> (string \<rightharpoonup> def_stmt) \<Rightarrow> (string \<rightharpoonup> def_stmt)" where
  "exec_defs [] ns = ns"
| "exec_defs ((n, d) # ds) ns = exec_defs ds (ns(n \<mapsto> d))"

definition module_namespace :: "string \<rightharpoonup> def_stmt" where
  "module_namespace = exec_defs module_body Map.empty"

text \<open>
  A call \<^verbatim>\<open>quick_export(channel, guild, ticket_id, client)\<close> through the module's name:
  the name is looked up when the call is made. The first definition has three
  parameters, so four arguments are a \<^verbatim>\<open>TypeError\<close> for it; a name that none of the
  three definitions has bound is a \<^verbatim>\<open>NameError\<close>.
\<close>

definition call_quick_export ::
  "externals \<Rightarrow> string \<Rightarrow> string option \<Rightarrow> string option \<Rightarrow> client option
     \<Rightarrow> (py_exception + unit) \<times> event list" where
  "call_quick_export ext channel_arg guild_arg ticket_id client_arg =
     (case module_namespace ''quick_export'' of
        Some Def_quick_export_205 \<Rightarrow> quick_export ext channel_arg guild_arg ticket_id client_arg
      | Some Def_quick_export_170 \<Rightarrow>
          quick_export_unbound ext channel_arg guild_arg ticket_id client_arg
      | Some Def_quick_export_11 \<Rightarrow> (Inl TypeError, [])
      | _ \<Rightarrow> (Inl NameError, []))"

section \<open>The transcript builder, as the specification describes it\<close>



section \<open>A guild with one channel\<close>

text \<open>The concrete inputs at which the theorems below are instantiated.\<close>

definition support_guild :: guild where
  "support_guild = \<lparr>guild_id = 7\<rparr>"

definition stale_message :: message where
  "stale_message =
     \<lparr>message_id = 1, created_at = 100,
      attachments = Some [\<lparr>filename = Some ''transcript-support.html'', url = ''https://cdn.example.com/a.html''\<rparr>]\<rparr>"

definition photo_message :: message where
  "photo_message =
     \<lparr>message_id = 2, created_at = 200,
      attachments = Some [\<lparr>filename = Some ''photo.png'', url = ''https://cdn.example.com/photo.png''\<rparr>]\<rparr>"

definition plain_message :: message where
  "plain_message = \<lparr>message_id = 3, created_at = 300, attachments = Some []\<rparr>"

definition opaque_message :: message where
  "opaque_message = \<lparr>message_id = 4, created_at = 400, attachments = None\<rparr>"

definition half_read_message :: message where
  "half_read_message =
     \<lparr>message_id = 5, created_at = 500,
      attachments = Some [\<lparr>filename = Some ''transcript-support.html'', url = ''https://cdn.example.com/b.html''\<rparr>,
                          \<lparr>filename = None, url = ''https://cdn.example.com/c''\<rparr>]\<rparr>"

definition late_match_message :: message where
  "late_match_message =
     \<lparr>message_id = 6, created_at = 600,
      attachments = Some [\<lparr>filename = None, url = ''https://cdn.example.com/d''\<rparr>,
                          \<lparr>filename = Some ''transcript-support.html'', url = ''https://cdn.example.com/e.html''\<rparr>]\<rparr>"

definition support_channel :: channel where
  "support_channel =
     \<lparr>channel_id = 9, name = ''support'', guild = None,
      history = [stale_message, photo_message, plain_message, opaque_message]\<rparr>"

definition decimal :: "string \<Rightarrow> int option" where
  "decimal s =
     (if s = ''7'' then Some 7 else if s = ''9'' then Some 9 else None)"

definition support_client :: client where
  "support_client =
     \<lparr>get_guild = (\<lambda>i. if i = 7 then Some support_guild else None),
      get_channel = (\<lambda>g i. if i = 9 then Some support_channel else None)\<rparr>"

definition working_builder :: externals where
  "working_builder =
     \<lparr>py_int = decimal,
      Transcript_export = (\<lambda>args. Inr \<lparr>html = ''<html></html>''\<rparr>),
      Transcript_export_unbound = (\<lambda>c l tz. Inr \<lparr>html = ''<html></html>''\<rparr>)\<rparr>"

definition cancelled_builder :: externals where
  "cancelled_builder =
     \<lparr>py_int = decimal,
      Transcript_export = (\<lambda>args. Inl (RaisedBaseException ''CancelledError'')),
      Transcript_export_unbound = (\<lambda>c l tz. Inl (RaisedBaseException ''CancelledError''))\<rparr>"

definition failing_builder :: externals where
  "failing_builder =
     \<lparr>py_int = decimal,
      Transcript_export = (\<lambda>args. Inl (RaisedException ''boom'')),
      Transcript_export_unbound = (\<lambda>c l tz. Inl (RaisedException ''boom''))\<rparr>"

section \<open>What the cleanup pass returns and emits\<close>

lemma scan_result:
  "fst (scan_attachments n m fs) = Inr () \<or> fst (scan_attachments n m fs) = Inl TypeError"
  by (induction fs) (auto split: option.splits prod.splits)

lemma inspect_result:
  "fst (inspect_message n m) = Inr () \<or> fst (inspect_message n m) = Inl TypeError"
  using scan_result by (auto simp: inspect_message_def split: option.splits)

text \<open>
  Whether the inspection of a message ends normally or in the \<^verbatim>\<open>TypeError\<close> that the
  handler catches, the loop goes on with the rest of the history.
\<close>

lemma cleanup_Cons:
  "cleanup n (m # ms) = (fst (cleanup n ms), snd (inspect_message n m) @ snd (cleanup n ms))"
proof -
  obtain r es where i: "inspect_message n m = (r, es)" by (cases "inspect_message n m")
  obtain r' es' where c: "cleanup n ms = (r', es')" by (cases "cleanup n ms")
  from inspect_result [of n m] i have "r = Inr () \<or> r = Inl TypeError" by simp
  with i c show ?thesis by auto
qed

lemma cleanup_returns: "fst (cleanup n ms) = Inr ()"
  by (induction ms) (simp_all add: cleanup_Cons del: cleanup.simps(2))

lemma scan_events: "set (snd (scan_attachments n m fs)) \<subseteq> {Delete m}"
  by (induction fs) (auto split: option.splits prod.splits)

lemma inspect_events: "set (snd (inspect_message n m)) \<subseteq> {Delete m}"
  using scan_events by (auto simp: inspect_message_def split: option.splits)

lemma cleanup_events: "set (snd (cleanup n ms)) \<subseteq> Delete ` set ms"
proof (induction ms)
  case Nil
  then show ?case by simp
next
  case (Cons m ms)
  with inspect_events [of n m] show ?case
    by (auto simp: cleanup_Cons simp del: cleanup.simps(2))
qed

lemma cleanup_and_write_eq:
  "cleanup_and_write c t text =
     (Inr (), History c # snd (cleanup (name c) (history c))
                @ [WriteFile (ticket_path (name c) t) text])"
proof -
  obtain r es where c: "cleanup (name c) (history c) = (r, es)"
    by (cases "cleanup (name c) (history c)")
  with cleanup_returns [of "name c" "history c"] have "r = Inr ()" by simp
  with c show ?thesis by (simp add: cleanup_and_write_def)
qed

lemma cleanup_filters:
  "filter is_WriteFile (snd (cleanup n ms)) = []"
  "filter is_lookup (snd (cleanup n ms)) = []"
  "filter is_Send (snd (cleanup n ms)) = []"
  "filter is_diagnostic (snd (cleanup n ms)) = []"
  using cleanup_events [of n ms] by (auto simp: filter_empty_conv)

text \<open>
  A message is deleted by the inner loop exactly when one of the attachments that the
  loop reaches has a matching filename; the loop reaches the attachments before the
  first one whose filename is not a string.
\<close>

lemma scan_deletes:
  "Delete m' \<in> set (snd (scan_attachments n m fs)) \<longleftrightarrow>
     m' = m \<and> (\<exists>f \<in> set (takeWhile (\<lambda>f. filename f \<noteq> None) fs).
                  \<exists>fn. filename f = Some fn \<and> str_contains (needle n) fn)"
  by (induction fs) (auto split: option.splits prod.splits)

lemma inspect_deletes:
  "Delete m' \<in> set (snd (inspect_message n m)) \<longleftrightarrow>
     m' = m \<and> (\<exists>fs. attachments m = Some fs
        \<and> (\<exists>f \<in> set (takeWhile (\<lambda>f. filename f \<noteq> None) fs).
              \<exists>fn. filename f = Some fn \<and> str_contains (needle n) fn))"
  by (auto simp: inspect_message_def scan_deletes split: option.splits)

lemma cleanup_deletes:
  "Delete m' \<in> set (snd (cleanup n ms)) \<longleftrightarrow>
     m' \<in> set ms \<and> Delete m' \<in> set (snd (inspect_message n m'))"
proof (induction ms)
  case Nil
  then show ?case by simp
next
  case (Cons m ms)
  have "Delete m' \<in> set (snd (inspect_message n m)) \<Longrightarrow> m' = m"
    using inspect_events [of n m] by auto
  with Cons show ?case
    by (auto simp: cleanup_Cons simp del: cleanup.simps(2))
qed

section \<open>The link\<close>

text \<open>
  C4. For every message whose first attachment has URL \<open>u\<close>, \<^verbatim>\<open>link\<close> returns exactly
  the string \<^verbatim>\<open>https://mahto.id/chat-exporter?url=\<close> followed by \<open>u\<close>, and the embed of
  \<^verbatim>\<open>quick_link\<close> carries the same string as the target of its link; the witness is the
  URL \<^verbatim>\<open>https://cdn.example.com/a.html\<close>.
\<close>

theorem link_url:
  assumes "attachments m = Some (a # as)"
  shows "link m = Inr (''https://mahto.id/chat-exporter?url='' @ url a)
       \<and> description (out_embed (projr (fst (quick_link c m))))
           = ''[Click here to view the transcript](''
               @ ''https://mahto.id/chat-exporter?url='' @ url a @ '')''"
  using assms by (simp add: link_def quick_link_def first_attachment_def Let_def)

theorem link_url_witness:
  "link stale_message = Inr ''https://mahto.id/chat-exporter?url=https://cdn.example.com/a.html''"
proof -
  have h: "attachments stale_message
      = Some (\<lparr>filename = Some ''transcript-support.html'',
                url = ''https://cdn.example.com/a.html''\<rparr> # [])"
    by (simp add: stale_message_def)
  from link_url [OF h, of support_channel] show ?thesis by simp
qed

text \<open>
  C9. \<^verbatim>\<open>link\<close> and \<^verbatim>\<open>quick_link\<close> read \<^verbatim>\<open>message.attachments[0]\<close> with no guard. On a
  message whose list of attachments is not empty both succeed: \<^verbatim>\<open>link\<close> returns the
  string, \<^verbatim>\<open>quick_link\<close> sends one embed and returns what it sent. On a message whose list
  of attachments is empty both raise \<^verbatim>\<open>IndexError\<close>, and \<^verbatim>\<open>quick_link\<close> has sent nothing.
\<close>

theorem first_attachment_unguarded:
  "(attachments m = Some (a # as) \<longrightarrow>
      link m = Inr (''https://mahto.id/chat-exporter?url='' @ url a)
      \<and> (\<exists>out. quick_link c m = (Inr out, [Send c out])))
   \<and> (attachments m = Some [] \<longrightarrow>
      link m = Inl IndexError \<and> quick_link c m = (Inl IndexError, []))"
  by (simp add: link_def quick_link_def first_attachment_def Let_def)

theorem first_attachment_unguarded_witness:
  "(\<exists>s. link photo_message = Inr s)
   \<and> (\<exists>out. quick_link support_channel photo_message = (Inr out, [Send support_channel out]))
   \<and> link plain_message = Inl IndexError
   \<and> quick_link support_channel plain_message = (Inl IndexError, [])"
proof -
  have h1: "attachments photo_message
      = Some (\<lparr>filename = Some ''photo.png'', url = ''https://cdn.example.com/photo.png''\<rparr> # [])"
    by (simp add: photo_message_def)
  have h2: "attachments plain_message = Some []"
    by (simp add: plain_message_def)
  from first_attachment_unguarded [of photo_message _ "[]" support_channel] h1
    first_attachment_unguarded [of plain_message _ _ support_channel] h2
  show ?thesis by blast
qed

section \<open>The guild of the caller's channel\<close>

text \<open>
  C8. \<^verbatim>\<open>export\<close>, \<^verbatim>\<open>raw_export\<close> and the \<^verbatim>\<open>quick_export\<close> that posts a message, called
  with a guild, leave the caller's channel with that guild in its \<^verbatim>\<open>guild\<close> field and
  every other field as it was; called with \<^verbatim>\<open>None\<close> for the guild, they leave the
  channel as it was. This holds whatever the builder returns or raises.
\<close>

theorem guild_assigned_only:
  "snd (export ext c limit tz (Some g) b mt ft be af sd ah) = c\<lparr>guild := Some g\<rparr>
   \<and> snd (export ext c limit tz None b mt ft be af sd ah) = c
   \<and> snd (raw_export ext c ms tz (Some g) b mt ft sd ah) = c\<lparr>guild := Some g\<rparr>
   \<and> snd (raw_export ext c ms tz None b mt ft sd ah) = c
   \<and> snd (quick_export_post ext c (Some g) b) = c\<lparr>guild := Some g\<rparr>
   \<and> snd (quick_export_post ext c None b) = c"
  by (simp add: export_def raw_export_def quick_export_post_def assign_guild_def Let_def)

section \<open>The name \<^verbatim>\<open>quick_export\<close>\<close>

text \<open>
  C10. The module binds the name \<^verbatim>\<open>quick_export\<close> three times. After the module has run,
  the name is bound to the last definition (line 205, the one that calls \<^verbatim>\<open>export\<close> with
  \<^verbatim>\<open>limit=10000\<close> and writes the returned string to disk), no name of the module is bound
  to the first or to the second definition, and a call through the name runs the last
  definition.
\<close>

theorem last_quick_export_bound:
  "module_namespace ''quick_export'' = Some Def_quick_export_205
   \<and> (\<forall>n. module_namespace n \<noteq> Some Def_quick_export_11)
   \<and> (\<forall>n. module_namespace n \<noteq> Some Def_quick_export_170)
   \<and> call_quick_export = quick_export"
  by (auto simp: module_namespace_def module_body_def call_quick_export_def fun_eq_iff)

section \<open>The lookups\<close>

text \<open>
  C5. In every run of the \<^verbatim>\<open>quick_export\<close> that writes to disk (lines 205 and 170) with
  guild and channel strings that \<^verbatim>\<open>int\<close> accepts and a guild that the client knows, the
  first event is the lookup of the guild, the second is the lookup of the channel on
  the guild that the first lookup returned, and no other lookup follows.
\<close>

theorem guild_before_channel:
  assumes "client_arg = Some cl" and "guild_arg = Some gs" and "py_int ext gs = Some gid"
    and "get_guild cl gid = Some g" and "py_int ext channel_arg = Some cid"
  shows "(\<exists>rest. snd (quick_export ext channel_arg guild_arg ticket_id client_arg)
             = GetGuild gid # GetChannel g cid # rest \<and> filter is_lookup rest = [])
       \<and> (\<exists>rest. snd (quick_export_unbound ext channel_arg guild_arg ticket_id client_arg)
             = GetGuild gid # GetChannel g cid # rest \<and> filter is_lookup rest = [])"
proof -
  have r: "resolve ext channel_arg guild_arg client_arg
      = (Inr (g, get_channel cl g cid), [GetGuild gid, GetChannel g cid])"
    using assms by (simp add: resolve_def)
  have "\<exists>rest. snd (quick_export ext channel_arg guild_arg ticket_id client_arg)
             = GetGuild gid # GetChannel g cid # rest \<and> filter is_lookup rest = []"
    by (cases "get_channel cl g cid")
      (auto simp: quick_export_def r cleanup_and_write_eq cleanup_filters
            split: prod.splits sum.splits)
  moreover
  have "\<exists>rest. snd (quick_export_unbound ext channel_arg guild_arg ticket_id client_arg)
             = GetGuild gid # GetChannel g cid # rest \<and> filter is_lookup rest = []"
    by (cases "get_channel cl g cid")
      (auto simp: quick_export_unbound_def r cleanup_and_write_eq cleanup_filters
            split: prod.splits sum.splits)
  ultimately show ?thesis by simp
qed

theorem guild_before_channel_witness:
  "(\<exists>rest. snd (quick_export working_builder ''9'' (Some ''7'') (Some ''42'') (Some support_client))
             = GetGuild 7 # GetChannel support_guild 9 # rest \<and> filter is_lookup rest = [])
   \<and> (\<exists>rest. snd (quick_export_unbound working_builder ''9'' (Some ''7'') (Some ''42'') (Some support_client))
             = GetGuild 7 # GetChannel support_guild 9 # rest \<and> filter is_lookup rest = [])"
proof -
  have h1: "Some support_client = Some support_client" and h2: "Some ''7'' = Some ''7''"
    by simp_all
  have h3: "py_int working_builder ''7'' = Some 7"
    by (simp add: working_builder_def decimal_def)
  have h4: "get_guild support_client 7 = Some support_guild"
    by (simp add: support_client_def)
  have h5: "py_int working_builder ''9'' = Some 9"
    by (simp add: working_builder_def decimal_def)
  from guild_before_channel [OF h1 h2 h3 h4 h5] show ?thesis .
qed

section \<open>The builder raises\<close>

text \<open>
  C1, as amended. When the guild and the channel resolve and the transcript builder
  raises an exception that derives from \<^verbatim>\<open>Exception\<close>, the \<^verbatim>\<open>quick_export\<close> that writes
  to disk prints the traceback, sends exactly one embed, titled
  \<^verbatim>\<open>Transcript Generation Failed!\<close> and without a file, to the channel, prints one line
  with a hint, and returns \<^verbatim>\<open>None\<close>. After the two lookups these are all its events: it
  writes no file, deletes no message and does not read the history. An exception of
  the builder that does not derive from \<^verbatim>\<open>Exception\<close> is not caught: it leaves the
  operation after the two lookups, and no embed is sent.
\<close>

theorem builder_failure_one_embed:
  assumes "client_arg = Some cl" and "guild_arg = Some gs" and "py_int ext gs = Some gid"
    and "get_guild cl gid = Some g" and "py_int ext channel_arg = Some cid"
    and "get_channel cl g cid = Some c"
  shows "(Transcript_export ext
            \<lparr>t_channel = c\<lparr>guild := Some g\<rparr>, t_limit = Some 10000, t_messages = None,
             t_pytz_timezone = ''UTC'', t_military_time = Some True,
             t_fancy_times = Some True, t_before = None, t_after = None,
             t_support_dev = Some True, t_bot = None, t_attachment_handler = None\<rparr> = Inl e
          \<longrightarrow> quick_export ext channel_arg guild_arg ticket_id client_arg
              = (if is_Exception e
                 then (Inr (), [GetGuild gid, GetChannel g cid, PrintExc e,
                                Send (c\<lparr>guild := Some g\<rparr>) error_out, Print hint])
                 else (Inl e, [GetGuild gid, GetChannel g cid])))
       \<and> (Transcript_export_unbound ext (Some c) None ''Europe/London'' = Inl e
          \<longrightarrow> quick_export_unbound ext channel_arg guild_arg ticket_id client_arg
              = (if is_Exception e
                 then (Inr (), [GetGuild gid, GetChannel g cid, PrintExc e,
                                Send c error_out, Print hint])
                 else (Inl e, [GetGuild gid, GetChannel g cid])))
       \<and> title (out_embed error_out) = Some ''Transcript Generation Failed!''
       \<and> out_file error_out = None"
proof -
  have r: "resolve ext channel_arg guild_arg client_arg
      = (Inr (g, Some c), [GetGuild gid, GetChannel g cid])"
    using assms by (simp add: resolve_def)
  show ?thesis
    by (simp add: quick_export_def quick_export_unbound_def r export_def assign_guild_def
        error_out_def error_embed_def)
qed

theorem builder_failure_one_embed_witness:
  "quick_export failing_builder ''9'' (Some ''7'') (Some ''42'') (Some support_client)
     = (Inr (), [GetGuild 7, GetChannel support_guild 9, PrintExc (RaisedException ''boom''),
                 Send (support_channel\<lparr>guild := Some support_guild\<rparr>) error_out, Print hint])
   \<and> quick_export_unbound failing_builder ''9'' (Some ''7'') (Some ''42'') (Some support_client)
     = (Inr (), [GetGuild 7, GetChannel support_guild 9, PrintExc (RaisedException ''boom''),
                 Send support_channel error_out, Print hint])"
proof -
  have h1: "Some support_client = Some support_client" and h2: "Some ''7'' = Some ''7''"
    by simp_all
  have h3: "py_int failing_builder ''7'' = Some 7"
    by (simp add: failing_builder_def decimal_def)
  have h4: "get_guild support_client 7 = Some support_guild"
    by (simp add: support_client_def)
  have h5: "py_int failing_builder ''9'' = Some 9"
    by (simp add: failing_builder_def decimal_def)
  have h6: "get_channel support_client support_guild 9 = Some support_channel"
    by (simp add: support_client_def)
  have b1: "Transcript_export failing_builder
            \<lparr>t_channel = support_channel\<lparr>guild := Some support_guild\<rparr>, t_limit = Some 10000,
             t_messages = None,
             t_pytz_timezone = ''UTC'', t_military_time = Some True,
             t_fancy_times = Some True, t_before = None, t_after = None,
             t_support_dev = Some True, t_bot = None, t_attachment_handler = None\<rparr>
        = Inl (RaisedException ''boom'')"
    by (simp add: failing_builder_def)
  have b2: "Transcript_export_unbound failing_builder (Some support_channel) None ''Europe/London''
        = Inl (RaisedException ''boom'')"
    by (simp add: failing_builder_def)
  from builder_failure_one_embed [OF h1 h2 h3 h4 h5 h6, of "RaisedException ''boom''" "Some ''42''"]
    b1 b2
  show ?thesis by simp
qed

text \<open>
  C1, as stated, fails: the builder raises \<^verbatim>\<open>asyncio.CancelledError\<close>, which
  \<^verbatim>\<open>except Exception\<close> does not catch, and the operation sends no embed.
\<close>

theorem cancellation_not_caught:
  "Transcript_export cancelled_builder
     \<lparr>t_channel = support_channel\<lparr>guild := Some support_guild\<rparr>, t_limit = Some 10000,
      t_messages = None, t_pytz_timezone = ''UTC'', t_military_time = Some True,
      t_fancy_times = Some True, t_before = None, t_after = None,
      t_support_dev = Some True, t_bot = None, t_attachment_handler = None\<rparr>
     = Inl (RaisedBaseException ''CancelledError'')
   \<and> quick_export cancelled_builder ''9'' (Some ''7'') (Some ''42'') (Some support_client)
     = (Inl (RaisedBaseException ''CancelledError''), [GetGuild 7, GetChannel support_guild 9])"
  by (simp add: quick_export_def resolve_def cancelled_builder_def decimal_def
      support_client_def export_def assign_guild_def)

section \<open>The builder succeeds\<close>

text \<open>
  C2. When the guild and the channel resolve and the transcript builder succeeds, the
  \<^verbatim>\<open>quick_export\<close> that writes to disk returns normally and writes exactly one file; its
  path is \<^verbatim>\<open>/var/www/html/transcripts/transcript-{channel-name}---{ticket-id}---.html\<close>
  and its content is the transcript. The witness is the channel \<^verbatim>\<open>support\<close> with the
  ticket id \<^verbatim>\<open>42\<close>.
\<close>

theorem builder_success_one_file:
  assumes "client_arg = Some cl" and "guild_arg = Some gs" and "py_int ext gs = Some gid"
    and "get_guild cl gid = Some g" and "py_int ext channel_arg = Some cid"
    and "get_channel cl g cid = Some c"
  shows "(Transcript_export ext
            \<lparr>t_channel = c\<lparr>guild := Some g\<rparr>, t_limit = Some 10000, t_messages = None,
             t_pytz_timezone = ''UTC'', t_military_time = Some True,
             t_fancy_times = Some True, t_before = None, t_after = None,
             t_support_dev = Some True, t_bot = None, t_attachment_handler = None\<rparr> = Inr t
          \<longrightarrow> fst (quick_export ext channel_arg guild_arg ticket_id client_arg) = Inr ()
            \<and> filter is_WriteFile (snd (quick_export ext channel_arg guild_arg ticket_id client_arg))
              = [WriteFile (''/var/www/html/transcripts/transcript-'' @ name c @ ''---''
                              @ py_str ticket_id @ ''---.html'') (html t)])
       \<and> (Transcript_export_unbound ext (Some c) None ''Europe/London'' = Inr t
          \<longrightarrow> fst (quick_export_unbound ext channel_arg guild_arg ticket_id client_arg) = Inr ()
            \<and> filter is_WriteFile
                (snd (quick_export_unbound ext channel_arg guild_arg ticket_id client_arg))
              = [WriteFile (''/var/www/html/transcripts/transcript-'' @ name c @ ''---''
                              @ py_str ticket_id @ ''---.html'') (html t)])"
proof -
  have r: "resolve ext channel_arg guild_arg client_arg
      = (Inr (g, Some c), [GetGuild gid, GetChannel g cid])"
    using assms by (simp add: resolve_def)
  show ?thesis
    by (simp add: quick_export_def quick_export_unbound_def r export_def assign_guild_def
        cleanup_and_write_eq cleanup_filters ticket_path_def ticket_name_def)
qed

theorem builder_success_one_file_witness:
  "filter is_WriteFile
     (snd (quick_export working_builder ''9'' (Some ''7'') (Some ''42'') (Some support_client)))
     = [WriteFile ''/var/www/html/transcripts/transcript-support---42---.html'' ''<html></html>'']
   \<and> filter is_WriteFile
     (snd (quick_export_unbound working_builder ''9'' (Some ''7'') (Some ''42'') (Some support_client)))
     = [WriteFile ''/var/www/html/transcripts/transcript-support---42---.html'' ''<html></html>'']"
proof -
  have h1: "Some support_client = Some support_client" and h2: "Some ''7'' = Some ''7''"
    by simp_all
  have h3: "py_int working_builder ''7'' = Some 7"
    by (simp add: working_builder_def decimal_def)
  have h4: "get_guild support_client 7 = Some support_guild"
    by (simp add: support_client_def)
  have h5: "py_int working_builder ''9'' = Some 9"
    by (simp add: working_builder_def decimal_def)
  have h6: "get_channel support_client support_guild 9 = Some support_channel"
    by (simp add: support_client_def)
  have b1: "Transcript_export working_builder
            \<lparr>t_channel = support_channel\<lparr>guild := Some support_guild\<rparr>, t_limit = Some 10000,
             t_messages = None,
             t_pytz_timezone = ''UTC'', t_military_time = Some True,
             t_fancy_times = Some True, t_before = None, t_after = None,
             t_support_dev = Some True, t_bot = None, t_attachment_handler = None\<rparr>
        = Inr \<lparr>html = ''<html></html>''\<rparr>"
    by (simp add: working_builder_def)
  have b2: "Transcript_export_unbound working_builder (Some support_channel) None ''Europe/London''
        = Inr \<lparr>html = ''<html></html>''\<rparr>"
    by (simp add: working_builder_def)
  have n: "name support_channel = ''support''"
    by (simp add: support_channel_def)
  from builder_success_one_file [OF h1 h2 h3 h4 h5 h6, of "\<lparr>html = ''<html></html>''\<rparr>" "Some ''42''"]
    b1 b2 n
  show ?thesis by (simp add: py_str_def)
qed

section \<open>Which messages the cleanup pass deletes\<close>

text \<open>
  C3, as amended. The cleanup pass of the \<^verbatim>\<open>quick_export\<close> that writes to disk runs on
  the name and the history of the resolved channel, between the read of the history
  and the write of the file. It inspects the attachments of a message in order and
  stops at the first one whose filename is not a string. A message is deleted if and
  only if it is in the history, its attachments can be iterated, and one of the
  attachments that the pass inspects has a filename that contains
  \<^verbatim>\<open>transcript-{channel.name}.html\<close>. Every message whose attachments all lack that
  string is left untouched, and the pass does nothing but delete messages of the
  history.
\<close>

theorem cleanup_deletes_transcripts:
  assumes "client_arg = Some cl" and "guild_arg = Some gs" and "py_int ext gs = Some gid"
    and "get_guild cl gid = Some g" and "py_int ext channel_arg = Some cid"
    and "get_channel cl g cid = Some c"
  shows "(Delete m \<in> set (snd (cleanup (name c) (history c))) \<longleftrightarrow>
            m \<in> set (history c)
            \<and> (\<exists>fs. attachments m = Some fs
                 \<and> (\<exists>f\<in>set (takeWhile (\<lambda>f. filename f \<noteq> None) fs).
                       \<exists>fn. filename f = Some fn
                          \<and> str_contains (''transcript-'' @ name c @ ''.html'') fn)))
       \<and> ((\<forall>fs. attachments m = Some fs \<longrightarrow>
               (\<forall>f\<in>set fs. \<forall>fn. filename f = Some fn
                  \<longrightarrow> \<not> str_contains (''transcript-'' @ name c @ ''.html'') fn))
            \<longrightarrow> Delete m \<notin> set (snd (cleanup (name c) (history c))))
       \<and> (\<forall>e\<in>set (snd (cleanup (name c) (history c))). \<exists>m'\<in>set (history c). e = Delete m')
       \<and> (Transcript_export ext
            \<lparr>t_channel = c\<lparr>guild := Some g\<rparr>, t_limit = Some 10000, t_messages = None,
             t_pytz_timezone = ''UTC'', t_military_time = Some True,
             t_fancy_times = Some True, t_before = None, t_after = None,
             t_support_dev = Some True, t_bot = None, t_attachment_handler = None\<rparr> = Inr t
           \<longrightarrow> snd (quick_export ext channel_arg guild_arg ticket_id client_arg)
               = [GetGuild gid, GetChannel g cid, History (c\<lparr>guild := Some g\<rparr>)]
                   @ snd (cleanup (name c) (history c))
                   @ [WriteFile (ticket_path (name c) ticket_id) (html t)])
       \<and> (Transcript_export_unbound ext (Some c) None ''Europe/London'' = Inr t
           \<longrightarrow> snd (quick_export_unbound ext channel_arg guild_arg ticket_id client_arg)
               = [GetGuild gid, GetChannel g cid, History c]
                   @ snd (cleanup (name c) (history c))
                   @ [WriteFile (ticket_path (name c) ticket_id) (html t)])"
proof -
  let ?es = "snd (cleanup (name c) (history c))"
  have a: "Delete m \<in> set ?es \<longleftrightarrow>
            m \<in> set (history c)
            \<and> (\<exists>fs. attachments m = Some fs
                 \<and> (\<exists>f\<in>set (takeWhile (\<lambda>f. filename f \<noteq> None) fs).
                       \<exists>fn. filename f = Some fn
                          \<and> str_contains (''transcript-'' @ name c @ ''.html'') fn))"
    by (simp add: cleanup_deletes inspect_deletes needle_def del: not_None_eq)
  have b: "(\<forall>fs. attachments m = Some fs \<longrightarrow>
               (\<forall>f\<in>set fs. \<forall>fn. filename f = Some fn
                  \<longrightarrow> \<not> str_contains (''transcript-'' @ name c @ ''.html'') fn))
            \<longrightarrow> Delete m \<notin> set ?es"
    unfolding a by (blast dest: set_takeWhileD)
  have c: "\<forall>e\<in>set ?es. \<exists>m'\<in>set (history c). e = Delete m'"
    using cleanup_events [of "name c" "history c"] by auto
  have r: "resolve ext channel_arg guild_arg client_arg
      = (Inr (g, Some c), [GetGuild gid, GetChannel g cid])"
    using assms by (simp add: resolve_def)
  have d: "Transcript_export ext
            \<lparr>t_channel = c\<lparr>guild := Some g\<rparr>, t_limit = Some 10000, t_messages = None,
             t_pytz_timezone = ''UTC'', t_military_time = Some True,
             t_fancy_times = Some True, t_before = None, t_after = None,
             t_support_dev = Some True, t_bot = None, t_attachment_handler = None\<rparr> = Inr t
           \<longrightarrow> snd (quick_export ext channel_arg guild_arg ticket_id client_arg)
               = [GetGuild gid, GetChannel g cid, History (c\<lparr>guild := Some g\<rparr>)]
                   @ ?es @ [WriteFile (ticket_path (name c) ticket_id) (html t)]"
    by (simp add: quick_export_def r export_def assign_guild_def cleanup_and_write_eq)
  have e: "Transcript_export_unbound ext (Some c) None ''Europe/London'' = Inr t
           \<longrightarrow> snd (quick_export_unbound ext channel_arg guild_arg ticket_id client_arg)
               = [GetGuild gid, GetChannel g cid, History c]
                   @ ?es @ [WriteFile (ticket_path (name c) ticket_id) (html t)]"
    by (simp add: quick_export_unbound_def r cleanup_and_write_eq)
  from a b c d e show ?thesis by blast
qed

theorem cleanup_deletes_transcripts_witness:
  "Delete stale_message \<in> set (snd (cleanup ''support'' (history support_channel)))
   \<and> Delete photo_message \<notin> set (snd (cleanup ''support'' (history support_channel)))
   \<and> snd (quick_export working_builder ''9'' (Some ''7'') (Some ''42'') (Some support_client))
      = [GetGuild 7, GetChannel support_guild 9,
         History (support_channel\<lparr>guild := Some support_guild\<rparr>), Delete stale_message,
         WriteFile ''/var/www/html/transcripts/transcript-support---42---.html''
           ''<html></html>'']"
proof -
  have h1: "Some support_client = Some support_client" and h2: "Some ''7'' = Some ''7''"
    by simp_all
  have h3: "py_int working_builder ''7'' = Some 7"
    by (simp add: working_builder_def decimal_def)
  have h4: "get_guild support_client 7 = Some support_guild"
    by (simp add: support_client_def)
  have h5: "py_int working_builder ''9'' = Some 9"
    by (simp add: working_builder_def decimal_def)
  have h6: "get_channel support_client support_guild 9 = Some support_channel"
    by (simp add: support_client_def)
  have n: "name support_channel = ''support''"
    by (simp add: support_channel_def)
  have b1: "Transcript_export working_builder
            \<lparr>t_channel = support_channel\<lparr>guild := Some support_guild\<rparr>, t_limit = Some 10000,
             t_messages = None,
             t_pytz_timezone = ''UTC'', t_military_time = Some True,
             t_fancy_times = Some True, t_before = None, t_after = None,
             t_support_dev = Some True, t_bot = None, t_attachment_handler = None\<rparr>
        = Inr \<lparr>html = ''<html></html>''\<rparr>"
    by (simp add: working_builder_def)
  have s1: "stale_message \<in> set (history support_channel)
     \<and> (\<exists>fs. attachments stale_message = Some fs
           \<and> (\<exists>f\<in>set (takeWhile (\<lambda>f. filename f \<noteq> None) fs).
                 \<exists>fn. filename f = Some fn
                    \<and> str_contains (''transcript-'' @ ''support'' @ ''.html'') fn))"
    by (simp add: support_channel_def stale_message_def str_contains_def)
  have s2: "\<forall>fs. attachments photo_message = Some fs \<longrightarrow>
               (\<forall>f\<in>set fs. \<forall>fn. filename f = Some fn
                  \<longrightarrow> \<not> str_contains (''transcript-'' @ ''support'' @ ''.html'') fn)"
    by (simp add: photo_message_def str_contains_def sublist_code)
  have c: "snd (cleanup ''support'' (history support_channel)) = [Delete stale_message]"
    by (simp add: support_channel_def inspect_message_def stale_message_def photo_message_def
        plain_message_def opaque_message_def str_contains_def needle_def sublist_code)
  note t1 = cleanup_deletes_transcripts [OF h1 h2 h3 h4 h5 h6, of stale_message
      "\<lparr>html = ''<html></html>''\<rparr>" "Some ''42''", unfolded n]
  note t2 = cleanup_deletes_transcripts [OF h1 h2 h3 h4 h5 h6, of photo_message
      "\<lparr>html = ''<html></html>''\<rparr>" "Some ''42''", unfolded n]
  from t1 s1 have d1: "Delete stale_message \<in> set (snd (cleanup ''support'' (history support_channel)))"
    by blast
  from t2 s2 have d2: "Delete photo_message \<notin> set (snd (cleanup ''support'' (history support_channel)))"
    by blast
  from t1 b1 have d3: "snd (quick_export working_builder ''9'' (Some ''7'') (Some ''42'') (Some support_client))
      = [GetGuild 7, GetChannel support_guild 9,
         History (support_channel\<lparr>guild := Some support_guild\<rparr>)]
        @ snd (cleanup ''support'' (history support_channel))
        @ [WriteFile (ticket_path ''support'' (Some ''42'')) (html \<lparr>html = ''<html></html>''\<rparr>)]"
    by blast
  from d1 d2 d3 show ?thesis
    by (simp add: c ticket_path_def ticket_name_def py_str_def)
qed

text \<open>
  C3, as stated, fails: the second attachment of \<open>late_match_message\<close> has a matching
  filename, but the first one raises the \<^verbatim>\<open>TypeError\<close> that ends the inspection of the
  message, and the message is not deleted.
\<close>

theorem match_after_unreadable_attachment:
  "attachments late_match_message
     = Some [\<lparr>filename = None, url = ''https://cdn.example.com/d''\<rparr>,
             \<lparr>filename = Some ''transcript-support.html'',
              url = ''https://cdn.example.com/e.html''\<rparr>]
   \<and> str_contains (''transcript-'' @ ''support'' @ ''.html'') ''transcript-support.html''
   \<and> cleanup ''support'' [late_match_message] = (Inr (), [])"
  by (simp add: late_match_message_def inspect_message_def str_contains_def)

section \<open>A \<^verbatim>\<open>TypeError\<close> during the cleanup pass\<close>

text \<open>
  C6, as amended. When the inspection of a message's attachments raises
  \<^verbatim>\<open>TypeError\<close>, the exception is swallowed, the rest of that message's attachments is
  skipped, nothing is printed, and the pass continues with the next message. What the
  pass did to the message before the exception stays done: the message has been
  deleted exactly when one of its attachments before the failing one had a matching
  filename, and is not deleted otherwise.
\<close>

theorem type_error_swallowed:
  assumes "fst (inspect_message n m) = Inl TypeError"
  shows "cleanup n (m # ms) = (Inr (), snd (inspect_message n m) @ snd (cleanup n ms))
       \<and> set (snd (inspect_message n m)) \<subseteq> {Delete m}
       \<and> (Delete m \<in> set (snd (inspect_message n m)) \<longleftrightarrow>
            (\<exists>fs. attachments m = Some fs
               \<and> (\<exists>f\<in>set (takeWhile (\<lambda>f. filename f \<noteq> None) fs).
                     \<exists>fn. filename f = Some fn
                        \<and> str_contains (''transcript-'' @ n @ ''.html'') fn)))
       \<and> filter is_diagnostic (snd (cleanup n (m # ms))) = []"
proof -
  have "cleanup n (m # ms) = (Inr (), snd (inspect_message n m) @ snd (cleanup n ms))"
    using cleanup_returns [of n ms] by (simp add: cleanup_Cons del: cleanup.simps(2))
  moreover
  have "filter is_diagnostic (snd (cleanup n (m # ms))) = []"
    using cleanup_events [of n "m # ms"] by (auto simp: filter_empty_conv)
  ultimately show ?thesis
    using inspect_events [of n m] by (simp add: inspect_deletes needle_def)
qed

theorem type_error_swallowed_witness:
  "cleanup ''support'' [opaque_message, stale_message] = (Inr (), [Delete stale_message])
   \<and> snd (inspect_message ''support'' opaque_message) = []"
proof -
  have h: "fst (inspect_message ''support'' opaque_message) = Inl TypeError"
    by (simp add: inspect_message_def opaque_message_def)
  have e: "snd (inspect_message ''support'' opaque_message) = []"
    by (simp add: inspect_message_def opaque_message_def)
  have r: "snd (cleanup ''support'' [stale_message]) = [Delete stale_message]"
    by (simp add: inspect_message_def stale_message_def str_contains_def needle_def)
  from type_error_swallowed [OF h, of "[stale_message]"] e r show ?thesis by simp
qed

text \<open>
  C6, as stated, fails: the second attachment of \<open>half_read_message\<close> raises the
  \<^verbatim>\<open>TypeError\<close> after the first one has matched, so the message whose inspection
  raised has been deleted.
\<close>

theorem type_error_after_deletion:
  "fst (inspect_message ''support'' half_read_message) = Inl TypeError
   \<and> cleanup ''support'' [half_read_message] = (Inr (), [Delete half_read_message])"
  by (simp add: inspect_message_def half_read_message_def str_contains_def needle_def)

section \<open>A window without messages\<close>






end
